theory Spec2Isabelle
  imports Complex_Main "HOL-Library.AList"
begin

section \<open>Python strings\<close>

text \<open>
  A Python \<open>str\<close> is modelled as a \<^typ>\<open>string\<close>: the list of its characters, each
  \<^typ>\<open>char\<close> standing for the code point of the same number (so the strings covered are
  those over the code points below 256, where \<open>len\<close> is \<^const>\<open>length\<close>).
\<close>

definition newline :: char where
  "newline = CHR 0x0A"

text \<open>
  \<open>str.isspace\<close> on one character. Below code point 256 the whitespace characters are
  TAB, LF, VT, FF, CR, the separators FS, GS, RS, US, the space, NEL and the no-break space.
\<close>

definition py_isspace :: "char \<Rightarrow> bool" where
  "py_isspace c = (c \<in> {CHR 0x09, CHR 0x0A, CHR 0x0B, CHR 0x0C, CHR 0x0D, CHR 0x1C, CHR 0x1D,
                         CHR 0x1E, CHR 0x1F, CHR 0x20, CHR 0x85, CHR 0xA0})"

text \<open>\<open>s.strip()\<close>: leading and trailing whitespace removed.\<close>

definition strip :: "string \<Rightarrow> string" where
  "strip s = rev (dropWhile py_isspace (rev (dropWhile py_isspace s)))"

text \<open>
  \<open>s.split(sep)\<close> for a one-character separator: the fields between the separators, in
  order; the empty string gives one empty field.
\<close>

fun py_split :: "char \<Rightarrow> string \<Rightarrow> string list" where
  "py_split sep [] = [[]]"
| "py_split sep (c # cs) =
     (if c = sep then [] # py_split sep cs
      else (case py_split sep cs of
              [] \<Rightarrow> [[c]]
            | field # fields \<Rightarrow> (c # field) # fields))"

text \<open>
  The slices \<open>s[:n]\<close> and \<open>s[n:]\<close>; a negative \<open>n\<close> counts from the end of the string.
\<close>

definition slice_to :: "string \<Rightarrow> int \<Rightarrow> string" where
  "slice_to s n = (if 0 \<le> n then take (nat n) s else take (nat (int (length s) + n)) s)"

definition slice_from :: "string \<Rightarrow> int \<Rightarrow> string" where
  "slice_from s n = (if 0 \<le> n then drop (nat n) s else drop (nat (int (length s) + n)) s)"

section \<open>utils/helpers.py: split\_message\<close>

text \<open>
  The inner loop of \<open>split_message\<close>,
  \<^verbatim>\<open>while len(line) > max_length:
      parts.append(line[:max_length])
      line = line[max_length:]\<close>
  It returns the parts and what is left of the line. For a limit that is not positive the
  loop need not end; not returning is the value \<open>None\<close>.
\<close>

partial_function (option) cut_line :: "int \<Rightarrow> string list \<Rightarrow> string \<Rightarrow> (string list \<times> string) option" where
  "cut_line max_length parts line =
     (if int (length line) > max_length
      then cut_line max_length (parts @ [slice_to line max_length]) (slice_from line max_length)
      else Some (parts, line))"

declare cut_line.simps [code]

text \<open>
  The loop over the lines, on the pair \<open>(parts, current_part)\<close>:
  \<^verbatim>\<open>for line in lines:
      if len(current_part) + len(line) + 1 > max_length:
          if current_part:
              parts.append(current_part.strip())
              current_part = line
          else:
              while len(line) > max_length: ...
              current_part = line
      else:
          current_part += '\n' + line if current_part else line\<close>
\<close>

fun split_lines :: "int \<Rightarrow> string list \<Rightarrow> string list \<times> string \<Rightarrow> (string list \<times> string) option" where
  "split_lines max_length [] acc = Some acc"
| "split_lines max_length (line # lines) (parts, current_part) =
     (if int (length current_part) + int (length line) + 1 > max_length then
        (if current_part \<noteq> [] then
           split_lines max_length lines (parts @ [strip current_part], line)
         else
           (case cut_line max_length parts line of
              None \<Rightarrow> None
            | Some (parts', line') \<Rightarrow> split_lines max_length lines (parts', line')))
      else
        split_lines max_length lines
          (parts, if current_part \<noteq> [] then current_part @ newline # line else line))"

text \<open>
  \<^verbatim>\<open>def split_message(text, max_length=4096):
      if not text or len(text) <= max_length:
          return [text]
      parts = []; current_part = ""
      lines = text.split('\n')
      for line in lines: ...
      if current_part:
          parts.append(current_part.strip())
      return parts\<close>
\<close>

definition split_message :: "string \<Rightarrow> int \<Rightarrow> string list option" where
  "split_message text max_length =
     (if text = [] \<or> int (length text) \<le> max_length then Some [text]
      else (case split_lines max_length (py_split newline text) ([], []) of
              None \<Rightarrow> None
            | Some (parts, current_part) \<Rightarrow>
                Some (if current_part \<noteq> [] then parts @ [strip current_part] else parts)))"

section \<open>utils/gsheets.py: GoogleSheetsManager\<close>

text \<open>
  A row of a sheet is a \<open>dict\<close> from column name to cell text. A dict keeps its keys in the
  order of their first insertion, and assigning to a key that is present replaces its value
  in place: an association list under \<^const>\<open>AList.update\<close>.
\<close>

type_synonym sheet_row = "(string \<times> string) list"

text \<open>\<open>d.get(key, default)\<close>.\<close>

definition dict_get :: "('k \<times> 'v) list \<Rightarrow> 'k \<Rightarrow> 'v \<Rightarrow> 'v" where
  "dict_get d key fallback = (case map_of d key of None \<Rightarrow> fallback | Some v \<Rightarrow> v)"

text \<open>
  The module's logger: each record is its level and which message it is, with the values
  the message is formatted from (the text of a caught exception is left out).
\<close>

datatype log_level = INFO | WARNING | ERROR

datatype gsheets_message =
    Sheets_id_missing
  | Credentials_missing
  | Service_ready
  | Service_init_failed
  | Service_unavailable
  | No_data string
  | Fetched nat string
  | Http_error string
  | Unexpected_error string
  | Cache_cleared string
  | Cache_cleared_all

text \<open>
  What the request \<open>service.spreadsheets().values().get(...).execute()\<close> does: it raises
  \<open>HttpError\<close>, raises another exception, or returns a result whose \<open>'values'\<close> entry, when
  there is one, is the list of the sheet's lines, each the list of its cells.
\<close>

datatype exn = HttpError | OtherException

type_synonym api_response = "exn + string list list option"

text \<open>
  The manager's fields. \<open>service\<close> tells whether \<open>self.service\<close> is set. The values of
  \<open>time.time()\<close> (seconds, as floating-point numbers) are taken as reals. Two fields are
  not in the source: \<open>logged\<close>, the records the logger has received, and \<open>requests\<close>, the
  sheets requested from the Google Sheets API so far, in order.
\<close>

record sheets_manager =
  sheets_id :: "string option"
  service :: bool
  cache :: "string \<rightharpoonup> sheet_row list"
  cache_timestamps :: "string \<rightharpoonup> real"
  cache_duration :: real
  logged :: "(log_level \<times> gsheets_message) list"
  requests :: "string list"

text \<open>The truth value of an optional string: \<open>None\<close> and the empty string are false.\<close>

definition truthy :: "string option \<Rightarrow> bool" where
  "truthy x = (case x of None \<Rightarrow> False | Some v \<Rightarrow> v \<noteq> [])"

text \<open>
  \<open>__init__\<close> with \<open>_initialize_service\<close>. The environment gives \<open>GOOGLE_SHEETS_ID\<close>;
  the credentials file is missing, or building the service raises, or it succeeds.
\<close>

datatype service_setup = No_credentials_file | Build_raises | Build_ok

definition init_manager :: "string option \<Rightarrow> service_setup \<Rightarrow> sheets_manager" where
  "init_manager env_sheets_id setup =
     \<lparr>sheets_id = env_sheets_id,
      service = (setup = Build_ok),
      cache = Map.empty,
      cache_timestamps = Map.empty,
      cache_duration = 300,
      logged =
        (if \<not> truthy env_sheets_id then [(WARNING, Sheets_id_missing)] else []) @
        [case setup of
           No_credentials_file \<Rightarrow> (ERROR, Credentials_missing)
         | Build_raises \<Rightarrow> (ERROR, Service_init_failed)
         | Build_ok \<Rightarrow> (INFO, Service_ready)],
      requests = []\<rparr>"

definition log_record :: "log_level \<Rightarrow> gsheets_message \<Rightarrow> sheets_manager \<Rightarrow> sheets_manager" where
  "log_record level msg s = s\<lparr>logged := logged s @ [(level, msg)]\<rparr>"

text \<open>
  One line of the sheet as a dict:
  \<^verbatim>\<open>while len(row) < len(headers):
      row.append('')
  row_dict = {}
  for i, header in enumerate(headers):
      row_dict[header] = row[i] if i < len(row) else ''\<close>
\<close>

definition row_dict :: "string list \<Rightarrow> string list \<Rightarrow> sheet_row" where
  "row_dict headers row =
     (let padded = row @ replicate (length headers - length row) []
      in fold (\<lambda>(header, cell) d. AList.update header cell d) (zip headers padded) [])"

text \<open>
  \<open>_fetch_sheet_data\<close>. \<open>response\<close> is what the request does if it is made. Every
  exception of the request is caught here.
\<close>

definition fetch_sheet_data :: "sheets_manager \<Rightarrow> string \<Rightarrow> api_response \<Rightarrow> sheet_row list \<times> sheets_manager" where
  "fetch_sheet_data s sheet_name response =
     (if \<not> service s \<or> \<not> truthy (sheets_id s) then
        ([], log_record ERROR Service_unavailable s)
      else
        (let s' = s\<lparr>requests := requests s @ [sheet_name]\<rparr> in
         case response of
           Inl HttpError \<Rightarrow> ([], log_record ERROR (Http_error sheet_name) s')
         | Inl OtherException \<Rightarrow> ([], log_record ERROR (Unexpected_error sheet_name) s')
         | Inr result \<Rightarrow>
             (case (case result of None \<Rightarrow> [] | Some values \<Rightarrow> values) of
                [] \<Rightarrow> ([], log_record WARNING (No_data sheet_name) s')
              | headers # lines \<Rightarrow>
                  (let data = map (row_dict headers) lines
                   in (data, log_record INFO (Fetched (length data) sheet_name) s')))))"

text \<open>
  \<open>_is_cache_valid\<close>; \<open>current_time\<close> is the value \<open>time.time()\<close> returns in it.
\<close>

definition is_cache_valid :: "sheets_manager \<Rightarrow> string \<Rightarrow> real \<Rightarrow> bool" where
  "is_cache_valid s sheet_name current_time =
     (case cache_timestamps s sheet_name of
        None \<Rightarrow> False
      | Some cache_time \<Rightarrow> current_time - cache_time < cache_duration s)"

text \<open>\<open>_update_cache\<close>; \<open>now\<close> is the value \<open>time.time()\<close> returns in it.\<close>

definition update_cache :: "sheets_manager \<Rightarrow> string \<Rightarrow> sheet_row list \<Rightarrow> real \<Rightarrow> sheets_manager" where
  "update_cache s sheet_name data now =
     s\<lparr>cache := (cache s)(sheet_name \<mapsto> data),
       cache_timestamps := (cache_timestamps s)(sheet_name \<mapsto> now)\<rparr>"

text \<open>
  \<open>clear_cache(sheet_name=None)\<close>: \<open>if sheet_name:\<close> takes the first branch for a name that
  is not empty, and the second for \<open>None\<close> and for the empty name.
\<close>

definition clear_cache :: "sheets_manager \<Rightarrow> string option \<Rightarrow> sheets_manager" where
  "clear_cache s sheet_name =
     (if truthy sheet_name then
        (let name = the sheet_name in
         log_record INFO (Cache_cleared name)
           (s\<lparr>cache := (cache s)(name := None),
              cache_timestamps := (cache_timestamps s)(name := None)\<rparr>))
      else
        log_record INFO Cache_cleared_all
          (s\<lparr>cache := Map.empty, cache_timestamps := Map.empty\<rparr>))"

text \<open>
  \<open>get_sheet_data_sync\<close>. \<open>t_check\<close> and \<open>t_update\<close> are the two readings of the clock (in
  \<open>_is_cache_valid\<close> and in \<open>_update_cache\<close>), \<open>response\<close> what the request does if it is
  made. The handler \<open>except Exception\<close> around the body returns the empty list; nothing in
  the body raises, \<open>_fetch_sheet_data\<close> having caught the request's exceptions.
\<close>

definition get_sheet_data_sync ::
    "sheets_manager \<Rightarrow> string \<Rightarrow> real \<Rightarrow> api_response \<Rightarrow> real \<Rightarrow> sheet_row list \<times> sheets_manager" where
  "get_sheet_data_sync s sheet_name t_check response t_update =
     (if is_cache_valid s sheet_name t_check then
        (case cache s sheet_name of None \<Rightarrow> ([], s) | Some data \<Rightarrow> (data, s))
      else
        (let (data, s') = fetch_sheet_data s sheet_name response
         in (data, update_cache s' sheet_name data t_update)))"

text \<open>
  \<open>get_sheet_data\<close>, the coroutine: the same steps, the fetch run by the executor and
  awaited. The model runs the call alone, with nothing interleaved at the \<open>await\<close>.
\<close>

definition get_sheet_data ::
    "sheets_manager \<Rightarrow> string \<Rightarrow> real \<Rightarrow> api_response \<Rightarrow> real \<Rightarrow> sheet_row list \<times> sheets_manager" where
  "get_sheet_data s sheet_name t_check response t_update =
     (if is_cache_valid s sheet_name t_check then
        (case cache s sheet_name of None \<Rightarrow> ([], s) | Some data \<Rightarrow> (data, s))
      else
        (let (data, s') = fetch_sheet_data s sheet_name response
         in (data, update_cache s' sheet_name data t_update)))"

section \<open>Dates\<close>

text \<open>
  A naive \<open>datetime\<close>, and the arithmetic of the \<open>datetime\<close> module on it: the ordinal of
  a date in the proleptic Gregorian calendar (day 1 is 0001-01-01), and the difference of
  two datetimes as a \<open>timedelta\<close>, here its length in microseconds.
\<close>

record datetime =
  year :: int
  month :: int
  day :: int
  hour :: int
  minute :: int
  second :: int
  microsecond :: int

definition is_leap :: "int \<Rightarrow> bool" where
  "is_leap y = (y mod 4 = 0 \<and> (y mod 100 \<noteq> 0 \<or> y mod 400 = 0))"

definition days_in_month :: "int \<Rightarrow> int \<Rightarrow> int" where
  "days_in_month y m =
     (if m = 2 then (if is_leap y then 29 else 28)
      else if m = 4 \<or> m = 6 \<or> m = 9 \<or> m = 11 then 30 else 31)"

definition days_before_year :: "int \<Rightarrow> int" where
  "days_before_year y = (y - 1) * 365 + (y - 1) div 4 - (y - 1) div 100 + (y - 1) div 400"

definition days_before_month :: "int \<Rightarrow> int \<Rightarrow> int" where
  "days_before_month y m =
     [0, 31, 59, 90, 120, 151, 181, 212, 243, 273, 304, 334] ! nat (m - 1) +
     (if 2 < m \<and> is_leap y then 1 else 0)"

definition toordinal :: "datetime \<Rightarrow> int" where
  "toordinal d = days_before_year (year d) + days_before_month (year d) (month d) + day d"

type_synonym timedelta = int

definition microseconds_of :: "datetime \<Rightarrow> int" where
  "microseconds_of d =
     (((toordinal d * 24 + hour d) * 60 + minute d) * 60 + second d) * 1000000 + microsecond d"

text \<open>\<open>a - b\<close> on datetimes, and the field \<open>days\<close> of a timedelta (rounded down).\<close>

definition datetime_sub :: "datetime \<Rightarrow> datetime \<Rightarrow> timedelta" where
  "datetime_sub a b = microseconds_of a - microseconds_of b"

definition days :: "timedelta \<Rightarrow> int" where
  "days td = td div 86400000000"

text \<open>
  \<open>datetime.strptime(s, '%Y-%m-%d')\<close>, with \<open>ValueError\<close> as \<open>None\<close>. The string is a year
  of four digits, a month (\<open>1[0-2]|0[1-9]|[1-9]\<close>) and a day
  (\<open>3[0-1]|[1-2]\d|0[1-9]|[1-9]| [1-9]\<close>) with a hyphen between them and nothing after; the
  date must exist (the year is at least 1, the day within the month).
\<close>

definition is_digit :: "char \<Rightarrow> bool" where
  "is_digit c = (c \<in> set ''0123456789'')"

definition digit_value :: "char \<Rightarrow> int" where
  "digit_value c = int (of_char c) - 48"

definition decimal :: "string \<Rightarrow> int" where
  "decimal ds = fold (\<lambda>c n. 10 * n + digit_value c) ds 0"

definition month_field :: "string \<Rightarrow> int option" where
  "month_field f =
     (case f of
        [a] \<Rightarrow> if is_digit a \<and> a \<noteq> CHR ''0'' then Some (digit_value a) else None
      | [a, b] \<Rightarrow>
          if a = CHR ''1'' \<and> b \<in> set ''012'' then Some (10 + digit_value b)
          else if a = CHR ''0'' \<and> is_digit b \<and> b \<noteq> CHR ''0'' then Some (digit_value b)
          else None
      | _ \<Rightarrow> None)"

definition day_field :: "string \<Rightarrow> int option" where
  "day_field f =
     (case f of
        [a] \<Rightarrow> if is_digit a \<and> a \<noteq> CHR ''0'' then Some (digit_value a) else None
      | [a, b] \<Rightarrow>
          if a = CHR ''3'' \<and> b \<in> set ''01'' then Some (30 + digit_value b)
          else if a \<in> set ''12'' \<and> is_digit b then Some (10 * digit_value a + digit_value b)
          else if (a = CHR ''0'' \<or> a = CHR '' '') \<and> is_digit b \<and> b \<noteq> CHR ''0''
            then Some (digit_value b)
          else None
      | _ \<Rightarrow> None)"

definition strptime_ymd :: "string \<Rightarrow> datetime option" where
  "strptime_ymd s =
     (case py_split (CHR ''-'') s of
        [yf, mf, df] \<Rightarrow>
          (if length yf = 4 \<and> list_all is_digit yf then
             (case (month_field mf, day_field df) of
                (Some m, Some d) \<Rightarrow>
                  (let y = decimal yf in
                   if 1 \<le> y \<and> d \<le> days_in_month y m then
                     Some \<lparr>year = y, month = m, day = d, hour = 0, minute = 0, second = 0,
                           microsecond = 0\<rparr>
                   else None)
              | _ \<Rightarrow> None)
           else None)
      | _ \<Rightarrow> None)"

section \<open>handlers/payments.py: get\_urgent\_payments\<close>

text \<open>The dict appended for an urgent payment.\<close>

record urgent_payment =
  fecha :: datetime
  concepto :: string
  monto :: string
  dias_restantes :: int

text \<open>
  The loop of \<open>get_urgent_payments\<close> over the rows, \<open>urgent_payments\<close> the list built
  so far:
  \<^verbatim>\<open>for payment in payments_data:
      try:
          payment_date = datetime.strptime(payment.get('fecha', ''), '%Y-%m-%d')
          days_until = (payment_date - current_date).days
          if 0 <= days_until <= 7:
              urgent_payments.append({...})
      except ValueError:
          continue\<close>
\<close>

fun urgent_loop :: "datetime \<Rightarrow> sheet_row list \<Rightarrow> urgent_payment list \<Rightarrow> urgent_payment list" where
  "urgent_loop current_date [] urgent_payments = urgent_payments"
| "urgent_loop current_date (payment # rest) urgent_payments =
     (case strptime_ymd (dict_get payment ''fecha'' []) of
        None \<Rightarrow> urgent_loop current_date rest urgent_payments
      | Some payment_date \<Rightarrow>
          (let days_until = days (datetime_sub payment_date current_date) in
           if 0 \<le> days_until \<and> days_until \<le> 7 then
             urgent_loop current_date rest
               (urgent_payments @
                [\<lparr>fecha = payment_date,
                  concepto = dict_get payment ''concepto'' [],
                  monto = dict_get payment ''monto'' [],
                  dias_restantes = days_until\<rparr>])
           else urgent_loop current_date rest urgent_payments))"

text \<open>
  \<open>get_urgent_payments\<close>: the rows of the sheet \<open>pagos\<close> from the manager, then the loop.
  \<open>current_date\<close> is the value of \<open>datetime.now()\<close>; the other arguments are those of
  \<^const>\<open>get_sheet_data_sync\<close>.
\<close>

definition get_urgent_payments ::
    "sheets_manager \<Rightarrow> datetime \<Rightarrow> real \<Rightarrow> api_response \<Rightarrow> real \<Rightarrow> urgent_payment list \<times> sheets_manager" where
  "get_urgent_payments sheets current_date t_check response t_update =
     (let (payments_data, sheets') = get_sheet_data_sync sheets ''pagos'' t_check response t_update
      in if payments_data = [] then ([], sheets')
         else (urgent_loop current_date payments_data [], sheets'))"

section \<open>utils/scheduler.py: Scheduler\<close>

text \<open>
  \<open>int(s)\<close> on a string, with \<open>ValueError\<close> as \<open>None\<close>: surrounding whitespace is dropped,
  then an optional sign and decimal digits, where one underscore may stand between two
  digits. (The interpreter's optional bound on the number of digits is not modelled.)
\<close>

fun digits_ok :: "string \<Rightarrow> bool" where
  "digits_ok [] = False"
| "digits_ok [c] = is_digit c"
| "digits_ok (c # d # cs) =
     (is_digit c \<and> (if d = CHR ''_'' then digits_ok cs else digits_ok (d # cs)))"

definition literal :: "string \<Rightarrow> int option" where
  "literal ds = (if digits_ok ds then Some (decimal (filter is_digit ds)) else None)"

definition py_int :: "string \<Rightarrow> int option" where
  "py_int s =
     (case strip s of
        [] \<Rightarrow> None
      | c # cs \<Rightarrow>
          if c = CHR ''+'' then literal cs
          else if c = CHR ''-'' then map_option uminus (literal cs)
          else literal (c # cs))"

datatype scheduler_message =
    Parse_admin_ids_failed
  | Urgent_send_failed int
  | Urgent_sent nat

text \<open>
  \<open>_parse_admin_ids\<close>, on the value of \<open>ADMIN_USER_IDS\<close> in the environment (\<open>None\<close> when it
  is not set). It returns the identifiers and the log records it writes:
  \<^verbatim>\<open>admin_ids_str = os.getenv('ADMIN_USER_IDS', '')
  if not admin_ids_str:
      return []
  try:
      return [int(uid.strip()) for uid in admin_ids_str.split(',') if uid.strip()]
  except ValueError:
      logger.error("Error al parsear ADMIN_USER_IDS")
      return []\<close>
\<close>

definition parse_admin_ids :: "string option \<Rightarrow> int list \<times> (log_level \<times> scheduler_message) list" where
  "parse_admin_ids env =
     (let admin_ids_str = (case env of None \<Rightarrow> [] | Some v \<Rightarrow> v) in
      if admin_ids_str = [] then ([], [])
      else
        (case those (map (\<lambda>uid. py_int (strip uid))
                      (filter (\<lambda>uid. strip uid \<noteq> []) (py_split (CHR '','') admin_ids_str))) of
           Some ids \<Rightarrow> (ids, [])
         | None \<Rightarrow> ([], [(ERROR, Parse_admin_ids_failed)])))"

text \<open>
  The scheduler's fields the notifications use. \<open>bot\<close> tells whether \<open>self.bot\<close> is set. Two
  fields are not in the source: \<open>notices\<close>, the records the logger has received, and
  \<open>attempts\<close>, the calls of \<open>bot.send_message\<close> made so far (chat and text), in order.
\<close>

record scheduler =
  bot :: bool
  admin_user_ids :: "int list"
  notices :: "(log_level \<times> scheduler_message) list"
  attempts :: "(int \<times> string) list"

text \<open>\<open>__init__\<close>: the bot exists when \<open>TELEGRAM_BOT_TOKEN\<close> is set and not empty.\<close>

definition init_scheduler :: "string option \<Rightarrow> string option \<Rightarrow> scheduler" where
  "init_scheduler env_token env_admin_ids =
     \<lparr>bot = truthy env_token,
      admin_user_ids = fst (parse_admin_ids env_admin_ids),
      notices = snd (parse_admin_ids env_admin_ids),
      attempts = []\<rparr>"

text \<open>
  One turn of the loop of \<open>send_urgent_notification\<close>. The bot's behaviour is the predicate
  \<open>raises\<close>: \<open>raises k chat_id\<close> tells whether the call of \<open>send_message\<close> to \<open>chat_id\<close>
  raises an exception, \<open>k\<close> calls having been made before it.
  \<^verbatim>\<open>try:
      await self.bot.send_message(chat_id=user_id, text=message, parse_mode='Markdown')
  except Exception as e:
      logger.error(...)\<close>
\<close>

definition send_to :: "(nat \<Rightarrow> int \<Rightarrow> bool) \<Rightarrow> string \<Rightarrow> int \<Rightarrow> scheduler \<Rightarrow> scheduler" where
  "send_to raises message user_id s =
     (let s' = s\<lparr>attempts := attempts s @ [(user_id, message)]\<rparr> in
      if raises (length (attempts s)) user_id
      then s'\<lparr>notices := notices s' @ [(ERROR, Urgent_send_failed user_id)]\<rparr>
      else s')"

text \<open>\<open>user_ids if user_ids else self.admin_user_ids\<close>, for \<open>user_ids\<close> a list or \<open>None\<close>.\<close>

definition target_users :: "scheduler \<Rightarrow> int list option \<Rightarrow> int list" where
  "target_users s user_ids =
     (case user_ids of
        None \<Rightarrow> admin_user_ids s
      | Some ids \<Rightarrow> if ids \<noteq> [] then ids else admin_user_ids s)"

text \<open>
  \<open>send_urgent_notification\<close>:
  \<^verbatim>\<open>if not self.bot:
      return
  target_users = user_ids if user_ids else self.admin_user_ids
  for user_id in target_users: ...
  logger.info(...)\<close>
\<close>

definition send_urgent_notification ::
    "scheduler \<Rightarrow> (nat \<Rightarrow> int \<Rightarrow> bool) \<Rightarrow> string \<Rightarrow> int list option \<Rightarrow> scheduler" where
  "send_urgent_notification s raises message user_ids =
     (if \<not> bot s then s
      else
        (let users = target_users s user_ids;
             s' = fold (send_to raises message) users s
         in s'\<lparr>notices := notices s' @ [(INFO, Urgent_sent (length users))]\<rparr>))"

section \<open>Terms of the properties\<close>

text \<open>
  The definitions of this section are not code of the repository: they name what the
  properties below speak of, and the example inputs they are evaluated at.
\<close>

text \<open>The condition under which \<open>_fetch_sheet_data\<close> sends its request.\<close>

definition available :: "sheets_manager \<Rightarrow> bool" where
  "available s = (service s \<and> truthy (sheets_id s))"

text \<open>
  The ways a fetch fails, with the error message of each: the service is not available, the
  request raises \<open>HttpError\<close>, or it raises another exception.
\<close>

definition fetch_failure :: "sheets_manager \<Rightarrow> string \<Rightarrow> api_response \<Rightarrow> gsheets_message option" where
  "fetch_failure s sheet_name response =
     (if \<not> available s then Some Service_unavailable
      else (case response of
              Inl HttpError \<Rightarrow> Some (Http_error sheet_name)
            | Inl OtherException \<Rightarrow> Some (Unexpected_error sheet_name)
            | Inr result \<Rightarrow> None))"

text \<open>
  The cache entry of a sheet is consistent with a list of refreshes (sheet, rows, time of
  storing) when the sheet has neither rows nor timestamp, or has both and they are the rows
  and the time of one and the same refresh of that sheet.
\<close>

definition entry_consistent ::
    "(string \<times> sheet_row list \<times> real) list \<Rightarrow> sheets_manager \<Rightarrow> string \<Rightarrow> bool" where
  "entry_consistent refreshes s T =
     (case cache s T of
        None \<Rightarrow> cache_timestamps s T = None
      | Some data \<Rightarrow>
          (case cache_timestamps s T of
             None \<Rightarrow> False
           | Some t \<Rightarrow> (T, data, t) \<in> set refreshes))"

definition consistent :: "(string \<times> sheet_row list \<times> real) list \<Rightarrow> sheets_manager \<Rightarrow> bool" where
  "consistent refreshes s = (\<forall>T. entry_consistent refreshes s T)"

text \<open>
  The operations of a run on the manager, and those that concern another sheet than \<open>T\<close>:
  a get of another sheet, and \<open>clear_cache\<close> with the name of another sheet.
\<close>

datatype cache_op =
    Get_sync string real api_response real
  | Get_async string real api_response real
  | Clear "string option"

fun run_op :: "cache_op \<Rightarrow> sheets_manager \<Rightarrow> sheets_manager" where
  "run_op (Get_sync U t_check response t_update) s = snd (get_sheet_data_sync s U t_check response t_update)"
| "run_op (Get_async U t_check response t_update) s = snd (get_sheet_data s U t_check response t_update)"
| "run_op (Clear sheet_name) s = clear_cache s sheet_name"

fun other_sheet :: "string \<Rightarrow> cache_op \<Rightarrow> bool" where
  "other_sheet T (Get_sync U t_check response t_update) = (U \<noteq> T)"
| "other_sheet T (Get_async U t_check response t_update) = (U \<noteq> T)"
| "other_sheet T (Clear sheet_name) = (truthy sheet_name \<and> sheet_name \<noteq> Some T)"

text \<open>What one row contributes to the urgent payments, if anything.\<close>

definition urgent_entry :: "datetime \<Rightarrow> sheet_row \<Rightarrow> urgent_payment option" where
  "urgent_entry current_date payment =
     (case strptime_ymd (dict_get payment ''fecha'' []) of
        None \<Rightarrow> None
      | Some payment_date \<Rightarrow>
          (let days_until = days (datetime_sub payment_date current_date) in
           if 0 \<le> days_until \<and> days_until \<le> 7 then
             Some \<lparr>fecha = payment_date,
                   concepto = dict_get payment ''concepto'' [],
                   monto = dict_get payment ''monto'' [],
                   dias_restantes = days_until\<rparr>
           else None))"

text \<open>The entries of \<open>ADMIN_USER_IDS\<close> that are not blank, stripped.\<close>

definition entries :: "string \<Rightarrow> string list" where
  "entries s = map strip (filter (\<lambda>uid. strip uid \<noteq> []) (py_split (CHR '','') s))"

text \<open>
  The recipients whose send raises, in order, \<open>k\<close> calls of \<open>send_message\<close> having been
  made before the first of them.
\<close>

fun failed_sends :: "(nat \<Rightarrow> int \<Rightarrow> bool) \<Rightarrow> nat \<Rightarrow> int list \<Rightarrow> int list" where
  "failed_sends raises k [] = []"
| "failed_sends raises k (u # us) =
     (if raises k u then u # failed_sends raises (Suc k) us else failed_sends raises (Suc k) us)"

text \<open>Example inputs.\<close>

definition example_manager :: sheets_manager where
  "example_manager = init_manager (Some ''sheet-id'') Build_ok"

definition example_response :: api_response where
  "example_response =
     Inr (Some [[''fecha'', ''concepto'', ''monto''], [''2024-01-13'', ''Matricula'', ''100'']])"

definition example_scheduler :: scheduler where
  "example_scheduler = init_scheduler (Some ''token'') (Some ''7,8'')"

definition date :: "int \<Rightarrow> int \<Rightarrow> int \<Rightarrow> datetime" where
  "date y m d = \<lparr>year = y, month = m, day = d, hour = 0, minute = 0, second = 0, microsecond = 0\<rparr>"

definition nine_am :: datetime where
  "nine_am = \<lparr>year = 2024, month = 1, day = 10, hour = 9, minute = 5, second = 0, microsecond = 0\<rparr>"

section \<open>split\_message\<close>

text \<open>
  C10. A text whose length is at most the limit, and the empty text under any limit, is
  returned as the one-element list holding the text itself, unchanged.
\<close>

theorem split_message_within_limit:
  assumes "text = [] \<or> int (length text) \<le> max_length"
  shows "split_message text max_length = Some [text]"
  using assms by (simp add: split_message_def)

theorem split_message_within_limit_witness:
  "int (length ''hola mundo'') \<le> 4096 \<and> split_message ''hola mundo'' 4096 = Some [''hola mundo'']
   \<and> split_message [] (- 1) = Some [[]]"
  using split_message_within_limit [of "''hola mundo''" 4096]
    split_message_within_limit [of "[]" "- 1"]
  by simp

text \<open>
  Under a positive limit the inner loop ends: it adds parts of exactly the limit's length
  and leaves a rest within the limit. So \<open>split_message\<close> returns for every text.
\<close>

lemma cut_line_returns:
  assumes "0 < n"
  shows "\<exists>parts' rest. cut_line n parts line = Some (parts @ parts', rest) \<and>
           (\<forall>p\<in>set parts'. int (length p) = n) \<and> int (length rest) \<le> n"
proof (induction "length line" arbitrary: line parts rule: less_induct)
  case less
  show ?case
  proof (cases "int (length line) > n")
    case False
    then have "cut_line n parts line = Some (parts @ [], line)"
      by (subst cut_line.simps) simp
    with False show ?thesis
      by fastforce
  next
    case True
    let ?head = "slice_to line n" and ?tail = "slice_from line n"
    from True assms have shorter: "length ?tail < length line"
      by (simp add: slice_from_def)
    from True assms have full: "int (length ?head) = n"
      by (simp add: slice_to_def)
    from less [OF shorter, of "parts @ [?head]"]
    obtain parts' rest where
      step: "cut_line n (parts @ [?head]) ?tail = Some ((parts @ [?head]) @ parts', rest)"
      and lens: "\<forall>p\<in>set parts'. int (length p) = n" and rest: "int (length rest) \<le> n"
      by blast
    from True have "cut_line n parts line = cut_line n (parts @ [?head]) ?tail"
      by (subst cut_line.simps) simp
    with step have "cut_line n parts line = Some (parts @ (?head # parts'), rest)"
      by simp
    moreover from full lens have "\<forall>p\<in>set (?head # parts'). int (length p) = n"
      by simp
    ultimately show ?thesis
      using rest by blast
  qed
qed

lemma split_lines_returns:
  assumes "0 < n"
  shows "\<exists>r. split_lines n lines acc = Some r"
proof (induction lines arbitrary: acc)
  case Nil
  show ?case by simp
next
  case (Cons line lines)
  obtain parts current_part where acc: "acc = (parts, current_part)"
    by (cases acc)
  from cut_line_returns [OF assms, of parts line]
  obtain parts' rest where "cut_line n parts line = Some (parts @ parts', rest)"
    by blast
  with Cons.IH show ?case
    unfolding acc by simp
qed

lemma split_message_returns:
  assumes "0 < max_length"
  shows "\<exists>parts. split_message text max_length = Some parts"
proof -
  from split_lines_returns [OF assms]
  obtain r where "split_lines max_length (py_split newline text) ([], []) = Some r"
    by blast
  then show ?thesis
    by (cases r) (simp add: split_message_def)
qed

text \<open>Helpers for the evaluation below.\<close>

lemma py_split_no_separator:
  "sep \<notin> set s \<Longrightarrow> py_split sep s = [s]"
  by (induction s) auto

lemma dropWhile_replicate_other:
  "\<not> P c \<Longrightarrow> dropWhile P (replicate n c) = replicate n c"
  by (cases n) simp_all

lemma strip_replicate:
  "\<not> py_isspace c \<Longrightarrow> strip (replicate n c) = replicate n c"
  by (simp add: strip_def dropWhile_replicate_other)

text \<open>
  C2. The property that every chunk is within the limit, evaluated on the code. A line
  longer than the limit that follows a part already begun is kept whole: the text \<open>a\<close>,
  a line break and ten \<open>b\<close> under the limit 5 gives the chunk of the ten \<open>b\<close>, and a
  message of length 9000 (\<open>a\<close>, a line break and 8998 \<open>b\<close>) under the limit 4096 gives a
  chunk of length 8998.
\<close>

theorem split_message_overlong_chunk:
  "split_message (''a'' @ newline # ''bbbbbbbbbb'') 5 = Some [''a'', ''bbbbbbbbbb''] \<and>
   length (''a'' @ newline # replicate 8998 (CHR ''b'')) = 9000 \<and>
   split_message (''a'' @ newline # replicate 8998 (CHR ''b'')) 4096 =
     Some [''a'', replicate 8998 (CHR ''b'')] \<and>
   length (replicate 8998 (CHR ''b'')) = 8998"
proof -
  have small: "split_message (''a'' @ newline # ''bbbbbbbbbb'') 5 = Some [''a'', ''bbbbbbbbbb'']"
    by (simp add: split_message_def newline_def strip_def py_isspace_def)
  have lines: "py_split newline (''a'' @ newline # replicate 8998 (CHR ''b'')) =
                 [''a'', replicate 8998 (CHR ''b'')]"
    by (simp add: py_split_no_separator newline_def)
  have s1: "strip ''a'' = ''a''"
    by (simp add: strip_def py_isspace_def)
  have s2: "strip (replicate 8998 (CHR ''b'')) = replicate 8998 (CHR ''b'')"
    by (rule strip_replicate) (simp add: py_isspace_def)
  have ne: "replicate 8998 (CHR ''b'') \<noteq> []"
    by simp
  have big: "split_message (''a'' @ newline # replicate 8998 (CHR ''b'')) 4096 =
     Some [''a'', replicate 8998 (CHR ''b'')]"
    unfolding split_message_def lines by (simp add: s1 s2 ne)
  from small big show ?thesis by simp
qed

text \<open>A text of line breaks only, longer than the limit, gives no chunk at all.\<close>

lemma split_message_line_breaks_only:
  "split_message [newline, newline] 1 = Some []"
  by (simp add: split_message_def)

section \<open>The cache of GoogleSheetsManager\<close>

lemma fetch_sheet_data_frame:
  "cache (snd (fetch_sheet_data s T response)) = cache s"
  "cache_timestamps (snd (fetch_sheet_data s T response)) = cache_timestamps s"
  "cache_duration (snd (fetch_sheet_data s T response)) = cache_duration s"
  "service (snd (fetch_sheet_data s T response)) = service s"
  "sheets_id (snd (fetch_sheet_data s T response)) = sheets_id s"
  by (auto simp: fetch_sheet_data_def log_record_def Let_def split: sum.splits exn.splits option.splits list.splits)

lemma fetch_sheet_data_requests:
  "requests (snd (fetch_sheet_data s T response)) = requests s @ (if available s then [T] else [])"
  by (auto simp: fetch_sheet_data_def log_record_def available_def Let_def split: sum.splits exn.splits option.splits list.splits)

lemma get_sheet_data_sync_miss:
  assumes "\<not> is_cache_valid s T t1"
  shows "get_sheet_data_sync s T t1 response t2 =
           (fst (fetch_sheet_data s T response),
            update_cache (snd (fetch_sheet_data s T response)) T (fst (fetch_sheet_data s T response)) t2)"
  using assms by (simp add: get_sheet_data_sync_def split: prod.splits)

lemma is_cache_valid_after_update:
  "is_cache_valid (update_cache s T data t0) T t1 = (t1 - t0 < cache_duration s)"
  by (simp add: is_cache_valid_def update_cache_def)

lemma is_cache_valid_after_clear:
  "sheet_name = None \<or> sheet_name = Some T \<Longrightarrow> \<not> is_cache_valid (clear_cache s sheet_name) T t1"
  by (auto simp: is_cache_valid_def clear_cache_def log_record_def truthy_def Let_def)

lemma example_manager_available: "available example_manager"
  by (simp add: available_def example_manager_def init_manager_def truthy_def)

lemma example_manager_miss: "\<not> is_cache_valid example_manager T t"
  by (simp add: is_cache_valid_def example_manager_def init_manager_def)

text \<open>
  What an operation on one sheet leaves of another: its rows and its timestamp, and the
  duration; and the entry a get stores when it has to fetch.
\<close>

lemma update_cache_other:
  assumes "U \<noteq> T"
  shows "cache (update_cache s U data t) T = cache s T"
    and "cache_timestamps (update_cache s U data t) T = cache_timestamps s T"
  using assms by (simp_all add: update_cache_def)

lemma update_cache_duration:
  "cache_duration (update_cache s U data t) = cache_duration s"
  by (simp add: update_cache_def)

lemma clear_cache_other:
  assumes "truthy sheet_name" and "sheet_name \<noteq> Some T"
  shows "cache (clear_cache s sheet_name) T = cache s T"
    and "cache_timestamps (clear_cache s sheet_name) T = cache_timestamps s T"
  using assms by (auto simp: clear_cache_def log_record_def truthy_def Let_def split: option.splits)

lemma clear_cache_duration:
  "cache_duration (clear_cache s sheet_name) = cache_duration s"
  by (simp add: clear_cache_def log_record_def Let_def)

lemma get_sheet_data_sync_other:
  assumes "U \<noteq> T"
  shows "cache (snd (get_sheet_data_sync s U t1 response t2)) T = cache s T"
    and "cache_timestamps (snd (get_sheet_data_sync s U t1 response t2)) T = cache_timestamps s T"
proof -
  show "cache (snd (get_sheet_data_sync s U t1 response t2)) T = cache s T"
  proof (cases "is_cache_valid s U t1")
    case True
    then show ?thesis
      by (simp add: get_sheet_data_sync_def split: option.splits)
  next
    case False
    show ?thesis
      unfolding get_sheet_data_sync_miss [OF False]
      by (simp add: update_cache_other [OF assms] fetch_sheet_data_frame)
  qed
  show "cache_timestamps (snd (get_sheet_data_sync s U t1 response t2)) T = cache_timestamps s T"
  proof (cases "is_cache_valid s U t1")
    case True
    then show ?thesis
      by (simp add: get_sheet_data_sync_def split: option.splits)
  next
    case False
    show ?thesis
      unfolding get_sheet_data_sync_miss [OF False]
      by (simp add: update_cache_other [OF assms] fetch_sheet_data_frame)
  qed
qed

lemma get_sheet_data_sync_duration:
  "cache_duration (snd (get_sheet_data_sync s U t1 response t2)) = cache_duration s"
proof (cases "is_cache_valid s U t1")
  case True
  then show ?thesis
    by (simp add: get_sheet_data_sync_def split: option.splits)
next
  case False
  show ?thesis
    unfolding get_sheet_data_sync_miss [OF False]
    by (simp add: update_cache_duration fetch_sheet_data_frame)
qed

lemma get_sheet_data_as_sync:
  "get_sheet_data s U t1 response t2 = get_sheet_data_sync s U t1 response t2"
  by (simp add: get_sheet_data_def get_sheet_data_sync_def)

lemma stored_entry:
  assumes miss: "\<not> is_cache_valid s T t_first"
    and stored: "get_sheet_data_sync s T t_first response0 t0 = (data0, s0)"
  shows "cache s0 T = Some data0" and "cache_timestamps s0 T = Some t0"
  using stored unfolding get_sheet_data_sync_miss [OF miss]
  by (auto simp: update_cache_def)

lemma run_op_other:
  assumes "other_sheet T op"
  shows "cache (run_op op s) T = cache s T"
    and "cache_timestamps (run_op op s) T = cache_timestamps s T"
  using assms
  by (cases op; simp add: get_sheet_data_sync_other get_sheet_data_as_sync clear_cache_other)+

lemma run_op_duration:
  "cache_duration (run_op op s) = cache_duration s"
  by (cases op) (simp_all add: get_sheet_data_sync_duration get_sheet_data_as_sync clear_cache_duration)

lemma fold_run_op_other:
  assumes "\<forall>op\<in>set ops. other_sheet T op"
  shows "cache (fold run_op ops s) T = cache s T \<and>
         cache_timestamps (fold run_op ops s) T = cache_timestamps s T \<and>
         cache_duration (fold run_op ops s) = cache_duration s"
  using assms
  by (induction ops arbitrary: s) (simp_all add: run_op_other run_op_duration)

lemma get_of_fresh_entry:
  assumes "cache s T = Some data0" and "cache_timestamps s T = Some t0"
    and "t1 - t0 < cache_duration s"
  shows "get_sheet_data_sync s T t1 response t2 = (data0, s)"
  using assms by (simp add: get_sheet_data_sync_def is_cache_valid_def)

lemma get_of_stale_entry:
  assumes stamp: "cache_timestamps s T = Some t0"
    and stale: "cache_duration s \<le> t1 - t0"
  shows "let (data, s1) = get_sheet_data_sync s T t1 response t2
         in data = fst (fetch_sheet_data s T response) \<and>
            requests s1 = requests s @ (if available s then [T] else []) \<and>
            cache s1 T = Some data \<and> cache_timestamps s1 T = Some t2"
proof -
  from stamp stale have "\<not> is_cache_valid s T t1"
    by (simp add: is_cache_valid_def)
  from get_sheet_data_sync_miss [OF this, of response t2] show ?thesis
    by (simp add: update_cache_def fetch_sheet_data_requests)
qed

text \<open>
  C4. Let the cache hold for the sheet \<open>T\<close> the rows of a fetch stored at time \<open>t0\<close>,
  whatever was done to other sheets since. A get of \<open>T\<close> at time \<open>t1\<close> with
  \<open>t1 - t0 < cache_duration\<close> returns these rows and leaves the state as it is (no request
  is sent). With \<open>cache_duration \<le> t1 - t0\<close> it runs the fetch again (sending the request
  when the service is available), returns what the fetch gives and stores it with the new
  time.
\<close>

theorem cache_freshness:
  assumes rows: "cache s T = Some data0"
    and stamp: "cache_timestamps s T = Some t0"
  shows "(t1 - t0 < cache_duration s \<longrightarrow>
            get_sheet_data_sync s T t1 response t2 = (data0, s)) \<and>
         (cache_duration s \<le> t1 - t0 \<longrightarrow>
            (let (data, s1) = get_sheet_data_sync s T t1 response t2
             in data = fst (fetch_sheet_data s T response) \<and>
                requests s1 = requests s @ (if available s then [T] else []) \<and>
                cache s1 T = Some data \<and> cache_timestamps s1 T = Some t2))"
  using get_of_fresh_entry [OF rows stamp] get_of_stale_entry [OF stamp]
  by blast

theorem cache_freshness_witness:
  "let r = get_sheet_data_sync example_manager ''pagos'' 1000 example_response 1001;
       s = snd (get_sheet_data_sync (snd r) ''eventos'' 1050 (Inl HttpError) 1051)
   in cache s ''pagos'' = Some (fst r) \<and>
      cache_timestamps s ''pagos'' = Some 1001 \<and>
      1100 - 1001 < cache_duration s \<and>
      get_sheet_data_sync s ''pagos'' 1100 (Inl HttpError) 1101 = (fst r, s) \<and>
      cache_duration s \<le> 1301 - 1001 \<and>
      fst (get_sheet_data_sync s ''pagos'' 1301 (Inl HttpError) 1302) = [] \<and>
      requests (snd (get_sheet_data_sync s ''pagos'' 1301 (Inl HttpError) 1302)) =
        [''pagos'', ''eventos'', ''pagos'']"
proof -
  define r where "r = get_sheet_data_sync example_manager ''pagos'' 1000 example_response 1001"
  define s where "s = snd (get_sheet_data_sync (snd r) ''eventos'' 1050 (Inl HttpError) 1051)"
  have miss: "\<not> is_cache_valid example_manager ''pagos'' 1000"
    by (rule example_manager_miss)
  have stored: "get_sheet_data_sync example_manager ''pagos'' 1000 example_response 1001 = (fst r, snd r)"
    by (simp add: r_def)
  have other: "''eventos'' \<noteq> ''pagos''"
    by simp
  have rows: "cache s ''pagos'' = Some (fst r)"
    unfolding s_def
    by (simp add: get_sheet_data_sync_other [OF other] stored_entry [OF miss stored])
  have stamp: "cache_timestamps s ''pagos'' = Some 1001"
    unfolding s_def
    by (simp add: get_sheet_data_sync_other [OF other] stored_entry [OF miss stored])
  have dur: "cache_duration s = 300"
    by (simp add: s_def r_def get_sheet_data_sync_duration example_manager_def init_manager_def)
  have r: "snd r = update_cache (snd (fetch_sheet_data example_manager ''pagos'' example_response))
             ''pagos'' (fst (fetch_sheet_data example_manager ''pagos'' example_response)) 1001"
    by (simp add: r_def get_sheet_data_sync_miss [OF miss])
  have none: "cache_timestamps example_manager ''eventos'' = None"
    by (simp add: example_manager_def init_manager_def)
  have miss2: "\<not> is_cache_valid (snd r) ''eventos'' 1050"
    by (simp add: r is_cache_valid_def update_cache_def fetch_sheet_data_frame none)
  have s: "s = update_cache (snd (fetch_sheet_data (snd r) ''eventos'' (Inl HttpError)))
             ''eventos'' (fst (fetch_sheet_data (snd r) ''eventos'' (Inl HttpError))) 1051"
    by (simp add: s_def get_sheet_data_sync_miss [OF miss2])
  have av_r: "available (snd r)"
    using example_manager_available
    by (simp add: r available_def update_cache_def fetch_sheet_data_frame)
  have av: "available s"
    using av_r by (simp add: s available_def update_cache_def fetch_sheet_data_frame)
  have req_r: "requests (snd r) = [''pagos'']"
    using example_manager_available
    by (simp add: r update_cache_def fetch_sheet_data_requests example_manager_def init_manager_def)
  have req: "requests s = [''pagos'', ''eventos'']"
    using av_r by (simp add: s update_cache_def fetch_sheet_data_requests req_r)
  have empty: "fst (fetch_sheet_data s ''pagos'' (Inl HttpError)) = []"
    by (simp add: fetch_sheet_data_def Let_def)
  from cache_freshness [OF rows stamp, of 1100 "Inl HttpError" 1101]
  have fresh: "get_sheet_data_sync s ''pagos'' 1100 (Inl HttpError) 1101 = (fst r, s)"
    by (simp add: dur)
  from cache_freshness [OF rows stamp, of 1301 "Inl HttpError" 1302]
  have stale: "fst (get_sheet_data_sync s ''pagos'' 1301 (Inl HttpError) 1302) = [] \<and>
     requests (snd (get_sheet_data_sync s ''pagos'' 1301 (Inl HttpError) 1302)) =
       [''pagos'', ''eventos'', ''pagos'']"
    by (simp add: dur av req empty split: prod.splits)
  from rows stamp dur fresh stale show ?thesis
    unfolding s_def [symmetric] r_def [symmetric] Let_def by simp
qed

text \<open>
  The same from the get that stored the entry: after it, and after any operations on other
  sheets (gets, \<open>clear_cache\<close> with their names), the later get of \<open>T\<close> is served from the
  cache within the duration and fetches again from the duration on.
\<close>

lemma cache_freshness_interleaved:
  assumes miss: "\<not> is_cache_valid s T t_first"
    and stored: "get_sheet_data_sync s T t_first response0 t0 = (data0, s0)"
    and others: "\<forall>op\<in>set ops. other_sheet T op"
    and later: "s' = fold run_op ops s0"
  shows "(t1 - t0 < cache_duration s \<longrightarrow>
            get_sheet_data_sync s' T t1 response t2 = (data0, s')) \<and>
         (cache_duration s \<le> t1 - t0 \<longrightarrow>
            (let (data, s1) = get_sheet_data_sync s' T t1 response t2
             in data = fst (fetch_sheet_data s' T response) \<and>
                requests s1 = requests s' @ (if available s' then [T] else []) \<and>
                cache s1 T = Some data \<and> cache_timestamps s1 T = Some t2))"
proof -
  from stored have s0: "s0 = snd (get_sheet_data_sync s T t_first response0 t0)"
    by simp
  have dur0: "cache_duration s0 = cache_duration s"
    unfolding s0 by (rule get_sheet_data_sync_duration)
  from fold_run_op_other [OF others, of s0] stored_entry [OF miss stored] dur0
  have rows: "cache s' T = Some data0" and stamp: "cache_timestamps s' T = Some t0"
    and dur: "cache_duration s' = cache_duration s"
    by (simp_all add: later)
  from get_of_fresh_entry [OF rows stamp] get_of_stale_entry [OF stamp] show ?thesis
    unfolding dur by blast
qed

text \<open>
  C5. After \<open>clear_cache\<close> for the sheet \<open>T\<close>, or for all sheets, the entry of \<open>T\<close> is not
  valid at any time, whatever the state before: the next get of \<open>T\<close> runs the fetch (sending
  the request when the service is available), returns what it gives and stores it.
\<close>

theorem invalidate_forces_refetch:
  assumes "sheet_name = None \<or> sheet_name = Some T"
  shows "\<not> is_cache_valid (clear_cache s sheet_name) T t1 \<and>
         (let s0 = clear_cache s sheet_name;
              (data, s1) = get_sheet_data_sync s0 T t1 response t2
          in data = fst (fetch_sheet_data s0 T response) \<and>
             requests s1 = requests s @ (if available s then [T] else []) \<and>
             cache s1 T = Some data \<and> cache_timestamps s1 T = Some t2)"
proof -
  let ?s0 = "clear_cache s sheet_name"
  have miss: "\<not> is_cache_valid ?s0 T t1"
    using assms by (rule is_cache_valid_after_clear)
  have same: "requests ?s0 = requests s" "available ?s0 = available s"
    by (simp_all add: clear_cache_def log_record_def available_def Let_def)
  from get_sheet_data_sync_miss [OF miss, of response t2] miss show ?thesis
    by (simp add: Let_def update_cache_def fetch_sheet_data_requests same)
qed

theorem invalidate_forces_refetch_witness:
  "let s = update_cache example_manager ''pagos'' [] 1000 in
     is_cache_valid s ''pagos'' 1001 \<and>
     \<not> is_cache_valid (clear_cache s (Some ''pagos'')) ''pagos'' 1001 \<and>
     \<not> is_cache_valid (clear_cache s None) ''pagos'' 1001 \<and>
     requests (snd (get_sheet_data_sync (clear_cache s (Some ''pagos'')) ''pagos'' 1001
                      example_response 1002)) = [''pagos''] \<and>
     requests (snd (get_sheet_data_sync (clear_cache s None) ''pagos'' 1001
                      example_response 1002)) = [''pagos'']"
proof -
  define s where "s = update_cache example_manager ''pagos'' [] 1000"
  have valid: "is_cache_valid s ''pagos'' 1001"
    by (simp add: s_def is_cache_valid_after_update example_manager_def init_manager_def)
  have av: "available s"
    using example_manager_available by (simp add: s_def available_def update_cache_def)
  have req: "requests s = []"
    by (simp add: s_def update_cache_def example_manager_def init_manager_def)
  from invalidate_forces_refetch [of "Some ''pagos''" "''pagos''" s 1001 example_response 1002]
  have one: "\<not> is_cache_valid (clear_cache s (Some ''pagos'')) ''pagos'' 1001 \<and>
     requests (snd (get_sheet_data_sync (clear_cache s (Some ''pagos'')) ''pagos'' 1001
                      example_response 1002)) = [''pagos'']"
    by (simp add: Let_def av req split: prod.splits)
  from invalidate_forces_refetch [of None "''pagos''" s 1001 example_response 1002]
  have all: "\<not> is_cache_valid (clear_cache s None) ''pagos'' 1001 \<and>
     requests (snd (get_sheet_data_sync (clear_cache s None) ''pagos'' 1001
                      example_response 1002)) = [''pagos'']"
    by (simp add: Let_def av req split: prod.splits)
  from valid one all show ?thesis
    unfolding s_def [symmetric] Let_def by simp
qed

text \<open>
  C6. When the fetch of a sheet fails (the service is not available, or the request raises
  \<open>HttpError\<close> or another exception) a get that has to fetch returns the empty list, and the
  failure is logged as an error; this holds for \<open>get_sheet_data_sync\<close> and for
  \<open>get_sheet_data\<close>.
\<close>

theorem fetch_failure_gives_empty:
  assumes failure: "fetch_failure s T response = Some msg"
    and miss: "\<not> is_cache_valid s T t1"
  shows "fst (get_sheet_data_sync s T t1 response t2) = [] \<and>
         logged (snd (get_sheet_data_sync s T t1 response t2)) = logged s @ [(ERROR, msg)] \<and>
         fst (get_sheet_data s T t1 response t2) = [] \<and>
         logged (snd (get_sheet_data s T t1 response t2)) = logged s @ [(ERROR, msg)]"
proof -
  have f: "fst (fetch_sheet_data s T response) = [] \<and>
           logged (snd (fetch_sheet_data s T response)) = logged s @ [(ERROR, msg)]"
    using failure
    by (auto simp: fetch_failure_def fetch_sheet_data_def available_def log_record_def Let_def
             split: if_splits sum.splits exn.splits)
  have same: "get_sheet_data s T t1 response t2 = get_sheet_data_sync s T t1 response t2"
    by (simp add: get_sheet_data_def get_sheet_data_sync_def)
  from f show ?thesis
    unfolding same get_sheet_data_sync_miss [OF miss] by (simp add: update_cache_def)
qed

theorem fetch_failure_gives_empty_witness:
  "fetch_failure example_manager ''pagos'' (Inl HttpError) = Some (Http_error ''pagos'') \<and>
   \<not> is_cache_valid example_manager ''pagos'' 1000 \<and>
   fst (get_sheet_data_sync example_manager ''pagos'' 1000 (Inl HttpError) 1001) = [] \<and>
   logged (snd (get_sheet_data_sync example_manager ''pagos'' 1000 (Inl HttpError) 1001)) =
     [(INFO, Service_ready), (ERROR, Http_error ''pagos'')]"
proof -
  have failure: "fetch_failure example_manager ''pagos'' (Inl HttpError) = Some (Http_error ''pagos'')"
    by (simp add: fetch_failure_def example_manager_available)
  have miss: "\<not> is_cache_valid example_manager ''pagos'' 1000"
    by (rule example_manager_miss)
  have l: "logged example_manager = [(INFO, Service_ready)]"
    by (simp add: example_manager_def init_manager_def truthy_def)
  from fetch_failure_gives_empty [OF failure miss, of 1001] failure miss show ?thesis
    by (simp add: l)
qed

text \<open>
  C9. A get of a sheet whose entry is valid leaves the whole state as it is: the rows and
  the timestamps of every sheet, the log and the requests sent; it returns the cached
  rows. This holds for \<open>get_sheet_data_sync\<close> and for \<open>get_sheet_data\<close>.
\<close>

theorem fresh_get_leaves_state:
  assumes "is_cache_valid s T t1"
  shows "snd (get_sheet_data_sync s T t1 response t2) = s \<and>
         snd (get_sheet_data s T t1 response t2) = s \<and>
         fst (get_sheet_data_sync s T t1 response t2) = (case cache s T of None \<Rightarrow> [] | Some data \<Rightarrow> data) \<and>
         fst (get_sheet_data s T t1 response t2) = (case cache s T of None \<Rightarrow> [] | Some data \<Rightarrow> data)"
  using assms by (simp add: get_sheet_data_sync_def get_sheet_data_def split: option.splits)

theorem fresh_get_leaves_state_witness:
  "let s = update_cache example_manager ''pagos'' [] 1000 in
     is_cache_valid s ''pagos'' 1299 \<and>
     snd (get_sheet_data_sync s ''pagos'' 1299 example_response 1300) = s \<and>
     snd (get_sheet_data s ''pagos'' 1299 example_response 1300) = s"
proof -
  define s where "s = update_cache example_manager ''pagos'' [] 1000"
  have valid: "is_cache_valid s ''pagos'' 1299"
    by (simp add: s_def is_cache_valid_after_update example_manager_def init_manager_def)
  from fresh_get_leaves_state [OF valid, of example_response 1300] valid show ?thesis
    unfolding s_def [symmetric] Let_def by simp
qed

lemma consistent_init: "consistent [] (init_manager env_sheets_id setup)"
  by (simp add: consistent_def entry_consistent_def init_manager_def)

lemma entry_consistent_update:
  "entry_consistent H s U \<Longrightarrow> entry_consistent (H @ [(T, data, t)]) (update_cache s T data t) U"
  by (auto simp: entry_consistent_def update_cache_def split: option.splits)

lemma entry_consistent_clear:
  "entry_consistent H s U \<Longrightarrow> entry_consistent H (clear_cache s sheet_name) U"
  by (auto simp: entry_consistent_def clear_cache_def log_record_def Let_def split: option.splits)

lemma entry_consistent_more:
  "entry_consistent H s U \<Longrightarrow> entry_consistent (H @ H') s U"
  by (auto simp: entry_consistent_def split: option.splits)

lemma consistent_update:
  "consistent H s \<Longrightarrow> consistent (H @ [(T, data, t)]) (update_cache s T data t)"
  by (simp add: consistent_def entry_consistent_update)

lemma consistent_clear:
  "consistent H s \<Longrightarrow> consistent H (clear_cache s sheet_name)"
  by (simp add: consistent_def entry_consistent_clear)

lemma consistent_more:
  "consistent H s \<Longrightarrow> consistent (H @ H') s"
  by (simp add: consistent_def entry_consistent_more)

lemma consistent_fetch:
  "consistent H (snd (fetch_sheet_data s T response)) = consistent H s"
  by (simp add: consistent_def entry_consistent_def fetch_sheet_data_frame cong: option.case_cong)

lemma consistent_dom:
  assumes "consistent H s"
  shows "dom (cache s) = dom (cache_timestamps s)"
proof -
  have "(cache s U = None) = (cache_timestamps s U = None)" for U
  proof -
    from assms have "entry_consistent H s U"
      by (simp add: consistent_def)
    then show ?thesis
      by (auto simp: entry_consistent_def split: option.splits)
  qed
  then show ?thesis
    by (auto simp: dom_def)
qed

text \<open>
  C8. Consistency of the cache is kept by every operation: \<open>_update_cache\<close> (which adds one
  refresh), \<open>clear_cache\<close> for one sheet and for all, and a get. In a consistent state the
  rows and the timestamps have the same sheets as keys, and the rows and the timestamp of
  a sheet are those of one refresh.
\<close>

theorem cache_entry_consistent:
  assumes "consistent H s"
  shows "consistent (H @ [(T, data, t)]) (update_cache s T data t) \<and>
         consistent H (clear_cache s (Some T)) \<and>
         consistent H (clear_cache s None) \<and>
         consistent (H @ [(T, fst (get_sheet_data_sync s T t1 response t2), t2)])
           (snd (get_sheet_data_sync s T t1 response t2)) \<and>
         dom (cache s) = dom (cache_timestamps s)"
proof -
  let ?r = "get_sheet_data_sync s T t1 response t2"
  have "consistent (H @ [(T, fst ?r, t2)]) (snd ?r)"
  proof (cases "is_cache_valid s T t1")
    case True
    then have "snd ?r = s"
      by (simp add: get_sheet_data_sync_def split: option.splits)
    with assms show ?thesis
      by (simp add: consistent_more)
  next
    case False
    from assms have "consistent H (snd (fetch_sheet_data s T response))"
      by (simp add: consistent_fetch)
    then show ?thesis
      unfolding get_sheet_data_sync_miss [OF False] by (simp add: consistent_update)
  qed
  with assms show ?thesis
    by (simp add: consistent_update consistent_clear consistent_dom)
qed

theorem cache_entry_consistent_witness:
  "consistent [] example_manager \<and>
   consistent [(''pagos'', [], 1000)] (update_cache example_manager ''pagos'' [] 1000) \<and>
   consistent [] (clear_cache example_manager (Some ''pagos'')) \<and>
   consistent [] (clear_cache example_manager None) \<and>
   dom (cache example_manager) = dom (cache_timestamps example_manager)"
proof -
  have init: "consistent [] example_manager"
    unfolding example_manager_def by (rule consistent_init)
  from cache_entry_consistent [OF init, of "''pagos''" "[]" 1000] init show ?thesis
    by simp
qed

section \<open>get\_urgent\_payments\<close>

text \<open>
  The loop keeps the rows in the order of the sheet: its result is the entries of the rows
  that have one, in that order.
\<close>

lemma urgent_loop_in_input_order:
  "urgent_loop current_date payments_data acc =
     acc @ List.map_filter (urgent_entry current_date) payments_data"
  by (induction payments_data arbitrary: acc)
     (auto simp: urgent_entry_def List.map_filter_simps Let_def split: option.splits)

lemma strptime_examples:
  "strptime_ymd ''2024-01-10'' = Some (date 2024 1 10)"
  "strptime_ymd ''2024-01-13'' = Some (date 2024 1 13)"
  "strptime_ymd ''2024-01-20'' = Some (date 2024 1 20)"
  "strptime_ymd ''2024-01-18'' = Some (date 2024 1 18)"
  "strptime_ymd ''2024-01-12'' = Some (date 2024 1 12)"
  "strptime_ymd ''pronto'' = None"
  by (simp_all add: strptime_ymd_def month_field_def day_field_def is_digit_def digit_value_def
      decimal_def days_in_month_def is_leap_def date_def)

lemma days_examples:
  "days (datetime_sub (date 2024 1 10) nine_am) = - 1"
  "days (datetime_sub (date 2024 1 13) nine_am) = 2"
  "days (datetime_sub (date 2024 1 20) nine_am) = 9"
  "days (datetime_sub (date 2024 1 18) nine_am) = 7"
  "days (datetime_sub (date 2024 1 12) nine_am) = 1"
  by (simp_all add: days_def datetime_sub_def microseconds_of_def toordinal_def days_before_year_def
      days_before_month_def is_leap_def date_def nine_am_def)

text \<open>
  C1. The urgent payments evaluated on the code, at 09:05 on 2024-01-10. Of the rows dated
  today, in three days, in ten days and \<open>pronto\<close>, only the row in three days is
  returned, with two days remaining: the row dated today is left out. The rows dated
  2024-01-18 and 2024-01-12 are both returned, in the order of the sheet.
\<close>

theorem urgent_payments_at_nine:
  "fst (get_urgent_payments example_manager nine_am 1000
         (Inr (Some [[''fecha'', ''concepto'', ''monto''],
                     [''2024-01-10'', ''Matricula'', ''100''],
                     [''2024-01-13'', ''Mensualidad'', ''50''],
                     [''2024-01-20'', ''Examen'', ''20''],
                     [''pronto'', ''Carnet'', ''5'']])) 1001) =
     [\<lparr>fecha = date 2024 1 13, concepto = ''Mensualidad'', monto = ''50'', dias_restantes = 2\<rparr>] \<and>
   fst (get_urgent_payments example_manager nine_am 1000
         (Inr (Some [[''fecha'', ''concepto'', ''monto''],
                     [''2024-01-18'', ''Examen'', ''20''],
                     [''2024-01-12'', ''Mensualidad'', ''50'']])) 1001) =
     [\<lparr>fecha = date 2024 1 18, concepto = ''Examen'', monto = ''20'', dias_restantes = 7\<rparr>,
      \<lparr>fecha = date 2024 1 12, concepto = ''Mensualidad'', monto = ''50'', dias_restantes = 1\<rparr>]"
  by (simp add: get_urgent_payments_def get_sheet_data_sync_def is_cache_valid_def
      fetch_sheet_data_def example_manager_def init_manager_def truthy_def log_record_def
      update_cache_def row_dict_def dict_get_def strptime_examples days_examples Let_def)

section \<open>The scheduler\<close>

lemma those_map:
  "those (map f xs) =
     (if \<forall>x\<in>set xs. f x \<noteq> None then Some (map (\<lambda>x. the (f x)) xs) else None)"
  by (induction xs) (auto split: option.splits)

text \<open>
  C3, as amended. When every entry of the string that is not blank is an integer literal,
  \<open>_parse_admin_ids\<close> returns the integers of these entries in order and logs nothing.
  When some entry is not, it returns the empty list and logs one error: no entry is kept.
  When the variable is not set, the list is empty and nothing is logged.
\<close>

theorem parse_admin_ids_all_or_nothing:
  "parse_admin_ids (Some s) =
     (if \<forall>e\<in>set (entries s). py_int e \<noteq> None
      then (map (\<lambda>e. the (py_int e)) (entries s), [])
      else ([], [(ERROR, Parse_admin_ids_failed)])) \<and>
   parse_admin_ids None = ([], [])"
proof (cases "s = []")
  case True
  then show ?thesis
    by (simp add: parse_admin_ids_def entries_def strip_def)
next
  case False
  have "map (\<lambda>uid. py_int (strip uid)) (filter (\<lambda>uid. strip uid \<noteq> []) (py_split (CHR '','') s))
        = map py_int (entries s)"
    by (simp add: entries_def)
  with False show ?thesis
    by (simp add: parse_admin_ids_def those_map)
qed

theorem parse_admin_ids_all_or_nothing_witness:
  "parse_admin_ids (Some ''1, 2,,3'') = ([1, 2, 3], []) \<and>
   parse_admin_ids (Some ''1,abc,3'') = ([], [(ERROR, Parse_admin_ids_failed)])"
proof -
  have e1: "entries ''1, 2,,3'' = [''1'', ''2'', ''3'']"
    by (simp add: entries_def strip_def py_isspace_def)
  have e2: "entries ''1,abc,3'' = [''1'', ''abc'', ''3'']"
    by (simp add: entries_def strip_def py_isspace_def)
  have i: "py_int ''1'' = Some 1" "py_int ''2'' = Some 2" "py_int ''3'' = Some 3" "py_int ''abc'' = None"
    by (simp_all add: py_int_def literal_def decimal_def digit_value_def is_digit_def strip_def py_isspace_def)
  from parse_admin_ids_all_or_nothing [of "''1, 2,,3''"] parse_admin_ids_all_or_nothing [of "''1,abc,3''"]
  show ?thesis
    by (simp add: e1 e2 i)
qed

text \<open>
  C3, as stated, fails: in \<open>1,abc,3\<close> the entries \<open>1\<close> and \<open>3\<close> are valid and \<open>abc\<close> is
  not, and the result is the empty list with an error logged, not the list of 1 and 3.
\<close>

theorem parse_admin_ids_drops_valid_entries:
  "py_int (strip ''1'') = Some 1 \<and> py_int (strip ''abc'') = None \<and> py_int (strip ''3'') = Some 3 \<and>
   parse_admin_ids (Some ''1,abc,3'') = ([], [(ERROR, Parse_admin_ids_failed)]) \<and>
   fst (parse_admin_ids (Some ''1,abc,3'')) \<noteq> [1, 3]"
  by (simp add: parse_admin_ids_def py_int_def literal_def decimal_def digit_value_def is_digit_def
      strip_def py_isspace_def)

lemma fold_send_to_attempts:
  "attempts (fold (send_to raises message) users s) = attempts s @ map (\<lambda>u. (u, message)) users"
  by (induction users arbitrary: s) (simp_all add: send_to_def Let_def)

lemma fold_send_to_notices:
  "notices (fold (send_to raises message) users s) =
     notices s @ map (\<lambda>u. (ERROR, Urgent_send_failed u)) (failed_sends raises (length (attempts s)) users)"
  by (induction users arbitrary: s) (simp_all add: send_to_def Let_def)

text \<open>
  C7. With a bot, \<open>send_urgent_notification\<close> calls \<open>send_message\<close> once for every target
  user, in order, whichever of the calls raise; the targets are the recipients given when
  their list is not empty. Each call that raises is logged as an error, and the sends go on.
\<close>

theorem broadcast_reaches_every_recipient:
  assumes "bot s"
  shows "attempts (send_urgent_notification s raises message user_ids) =
           attempts s @ map (\<lambda>u. (u, message)) (target_users s user_ids) \<and>
         notices (send_urgent_notification s raises message user_ids) =
           notices s @
           map (\<lambda>u. (ERROR, Urgent_send_failed u))
             (failed_sends raises (length (attempts s)) (target_users s user_ids)) @
           [(INFO, Urgent_sent (length (target_users s user_ids)))] \<and>
         (recipients \<noteq> [] \<longrightarrow> target_users s (Some recipients) = recipients)"
  using assms
  by (simp add: send_urgent_notification_def Let_def fold_send_to_attempts fold_send_to_notices
      target_users_def)

theorem broadcast_reaches_every_recipient_witness:
  "bot example_scheduler \<and>
   attempts (send_urgent_notification example_scheduler (\<lambda>k u. u = 2) ''aviso'' (Some [1, 2, 3])) =
     [(1, ''aviso''), (2, ''aviso''), (3, ''aviso'')] \<and>
   notices (send_urgent_notification example_scheduler (\<lambda>k u. u = 2) ''aviso'' (Some [1, 2, 3])) =
     [(ERROR, Urgent_send_failed 2), (INFO, Urgent_sent 3)]"
proof -
  have b: "bot example_scheduler"
    by (simp add: example_scheduler_def init_scheduler_def truthy_def)
  have a: "attempts example_scheduler = []"
    by (simp add: example_scheduler_def init_scheduler_def)
  have n: "notices example_scheduler = []"
    by (simp add: example_scheduler_def init_scheduler_def parse_admin_ids_def py_int_def literal_def
        decimal_def digit_value_def is_digit_def strip_def py_isspace_def)
  from broadcast_reaches_every_recipient [OF b, of "\<lambda>k u. u = 2" "''aviso''" "Some [1, 2, 3]" "[1, 2, 3]"] b
  show ?thesis
    by (simp add: a n)
qed

end
